theory Spec2Isabelle
  imports Main "HOL-Library.AList"
begin

section \<open>Python values\<close>

text \<open>
  The two tasks of \<^verbatim>\<open>matmethods/vasp/firetasks/parse_outputs.py\<close> work on
  dynamically typed data: the task's own parameters (\<^verbatim>\<open>self\<close>, a dict), the
  workflow's \<^verbatim>\<open>fw_spec\<close> (a dict) and the task document a drone returns. A value is
  \<^verbatim>\<open>None\<close>, a bool, an int, a string, a list, a dict with string keys, or an
  instance of a class (the \<^verbatim>\<open>drone\<close> parameter of \<^verbatim>\<open>ToDbTask\<close>), given by the
  name of its class and its attributes. A dict is an association list read with
  \<^const>\<open>map_of\<close>: a key is stored in place when it exists and appended otherwise, as
  a Python dict does. A document is a tree of values: the dict of the latest calculation
  is held by \<^verbatim>\<open>calcs_reversed\<close> only, so the in-place updates of the source are
  updates at that position of the tree.
\<close>

datatype pyval =
    PNone
  | PBool bool
  | PInt int
  | PStr string
  | PList "pyval list"
  | PDict "(string \<times> pyval) list"
  | PInst string "(string \<times> pyval) list"

type_synonym dict = "(string \<times> pyval) list"

text \<open>
  The exceptions the code can raise by itself, and \<open>Raised\<close> for whatever a
  collaborator (drone, serializer, database, file system) raises.
\<close>

datatype error =
    KeyError string
  | IndexError
  | TypeError
  | AttributeError
  | Raised string

text \<open>Truth value of a Python object (\<^verbatim>\<open>if x\<close>, \<^verbatim>\<open>not x\<close>, \<^verbatim>\<open>x and y\<close>).\<close>

fun py_truthy :: "pyval \<Rightarrow> bool" where
  "py_truthy PNone = False"
| "py_truthy (PBool b) = b"
| "py_truthy (PInt n) = (n \<noteq> 0)"
| "py_truthy (PStr s) = (s \<noteq> [])"
| "py_truthy (PList xs) = (xs \<noteq> [])"
| "py_truthy (PDict d) = (d \<noteq> [])"
| "py_truthy (PInst c a) = True"

text \<open>
  \<^verbatim>\<open>a == b\<close>: a bool is the int 0 or 1, lists are compared element by element and
  dicts key by key; instances of a class compare by identity, and the two sides of the
  comparisons below are never the same object.
\<close>

fun py_eq :: "pyval \<Rightarrow> pyval \<Rightarrow> bool" where
  "py_eq PNone PNone = True"
| "py_eq (PBool a) (PBool b) = (a = b)"
| "py_eq (PBool a) (PInt n) = ((if a then 1 else 0) = n)"
| "py_eq (PInt n) (PBool a) = (n = (if a then 1 else 0))"
| "py_eq (PInt m) (PInt n) = (m = n)"
| "py_eq (PStr s) (PStr t) = (s = t)"
| "py_eq (PList xs) (PList ys) = list_all2 py_eq xs ys"
| "py_eq (PDict a) (PDict b) =
     (list_all (\<lambda>(k, v). case map_of b k of None \<Rightarrow> False | Some w \<Rightarrow> py_eq v w) a
      \<and> list_all (\<lambda>(k, w). map_of a k \<noteq> None) b)"
| "py_eq _ _ = False"

text \<open>\<^verbatim>\<open>isinstance(x, six.string_types)\<close>.\<close>

fun is_string :: "pyval \<Rightarrow> bool" where
  "is_string (PStr s) = True"
| "is_string _ = False"

subsection \<open>Dict operations on the task and on \<^verbatim>\<open>fw_spec\<close>\<close>

definition dict_has :: "dict \<Rightarrow> string \<Rightarrow> bool" where
  \<comment> \<open>\<^verbatim>\<open>k in d\<close>\<close>
  "dict_has d k = (map_of d k \<noteq> None)"

definition dict_get_default :: "dict \<Rightarrow> string \<Rightarrow> pyval \<Rightarrow> pyval" where
  \<comment> \<open>\<^verbatim>\<open>d.get(k, dflt)\<close>\<close>
  "dict_get_default d k dflt = (case map_of d k of None \<Rightarrow> dflt | Some v \<Rightarrow> v)"

definition dict_get :: "dict \<Rightarrow> string \<Rightarrow> pyval" where
  \<comment> \<open>\<^verbatim>\<open>d.get(k)\<close>\<close>
  "dict_get d k = dict_get_default d k PNone"

definition dict_item :: "dict \<Rightarrow> string \<Rightarrow> error + pyval" where
  \<comment> \<open>\<^verbatim>\<open>d[k]\<close>\<close>
  "dict_item d k = (case map_of d k of None \<Rightarrow> Inl (KeyError k) | Some v \<Rightarrow> Inr v)"

subsection \<open>The same operations on a value of any type\<close>

definition py_contains :: "string \<Rightarrow> pyval \<Rightarrow> error + bool" where
  \<comment> \<open>\<^verbatim>\<open>k in x\<close> for a string \<open>k\<close>: a key of a dict, an element of a list, a substring of a string\<close>
  "py_contains k x =
     (case x of
        PDict d \<Rightarrow> Inr (dict_has d k)
      | PList xs \<Rightarrow> Inr (list_ex (\<lambda>y. py_eq y (PStr k)) xs)
      | PStr s \<Rightarrow> Inr (list_ex (\<lambda>i. take (length k) (drop i s) = k) [0..<Suc (length s)])
      | _ \<Rightarrow> Inl TypeError)"

definition py_getitem :: "pyval \<Rightarrow> string \<Rightarrow> error + pyval" where
  \<comment> \<open>\<^verbatim>\<open>x[k]\<close> for a string \<open>k\<close>: lists and strings take integer indices only\<close>
  "py_getitem x k = (case x of PDict d \<Rightarrow> dict_item d k | _ \<Rightarrow> Inl TypeError)"

definition py_get :: "pyval \<Rightarrow> string \<Rightarrow> error + pyval" where
  \<comment> \<open>\<^verbatim>\<open>x.get(k)\<close> and \<^verbatim>\<open>x.get(k, None)\<close>: only a dict has the method\<close>
  "py_get x k = (case x of PDict d \<Rightarrow> Inr (dict_get d k) | _ \<Rightarrow> Inl AttributeError)"

definition py_first :: "pyval \<Rightarrow> error + pyval" where
  \<comment> \<open>\<^verbatim>\<open>x[0]\<close>; a dict of string keys has no key 0\<close>
  "py_first x =
     (case x of
        PList xs \<Rightarrow> (case xs of [] \<Rightarrow> Inl IndexError | y # _ \<Rightarrow> Inr y)
      | PStr s \<Rightarrow> (case s of [] \<Rightarrow> Inl IndexError | c # _ \<Rightarrow> Inr (PStr [c]))
      | PDict d \<Rightarrow> Inl (KeyError ''0'')
      | _ \<Rightarrow> Inl TypeError)"

definition py_last :: "pyval \<Rightarrow> error + pyval" where
  \<comment> \<open>\<^verbatim>\<open>x[-1]\<close>\<close>
  "py_last x =
     (case x of
        PList xs \<Rightarrow> (if xs = [] then Inl IndexError else Inr (last xs))
      | PStr s \<Rightarrow> (if s = [] then Inl IndexError else Inr (PStr [last s]))
      | PDict d \<Rightarrow> Inl (KeyError ''-1'')
      | _ \<Rightarrow> Inl TypeError)"

definition py_reversed :: "pyval \<Rightarrow> error + pyval list" where
  \<comment> \<open>\<^verbatim>\<open>reversed(x)\<close>: the elements of a sequence, last first\<close>
  "py_reversed x =
     (case x of
        PList xs \<Rightarrow> Inr (rev xs)
      | PStr s \<Rightarrow> Inr (rev (map (\<lambda>c. PStr [c]) s))
      | _ \<Rightarrow> Inl TypeError)"

definition py_setitem :: "pyval \<Rightarrow> string \<Rightarrow> pyval \<Rightarrow> error + pyval" where
  \<comment> \<open>\<^verbatim>\<open>x[k] = v\<close>, giving the object as it is afterwards\<close>
  "py_setitem x k v = (case x of PDict d \<Rightarrow> Inr (PDict (AList.update k v d)) | _ \<Rightarrow> Inl TypeError)"

definition py_delitem :: "pyval \<Rightarrow> string \<Rightarrow> error + pyval" where
  \<comment> \<open>\<^verbatim>\<open>del x[k]\<close>, giving the object as it is afterwards\<close>
  "py_delitem x k =
     (case x of
        PDict d \<Rightarrow> (if dict_has d k then Inr (PDict (AList.delete k d)) else Inl (KeyError k))
      | _ \<Rightarrow> Inl TypeError)"

section \<open>Finding the directory to parse\<close>

text \<open>
  Lines 55--65 of \<^verbatim>\<open>VaspToDbTask.run_task\<close> and lines 137--147 of
  \<^verbatim>\<open>ToDbTask.run_task\<close> are the same code:
  \<^verbatim>\<open>
  calc_dir = os.getcwd()
  if "calc_dir" in self:
      calc_dir = self["calc_dir"]
  elif self.get("calc_loc"):
      if isinstance(self["calc_loc"], six.string_types):
          for doc in reversed(fw_spec["calc_locs"]):
              if doc["name"] == self["calc_loc_name"]:
                  calc_dir = doc["path"]
                  break
      else:
          calc_dir = fw_spec["calc_locs"][-1]["path"]
  \<close>
  \<open>scan_calc_locs\<close> is the \<^verbatim>\<open>for\<close> loop over the reversed history; its last
  argument is the value \<^verbatim>\<open>calc_dir\<close> has when the loop ends without a match.
\<close>

fun scan_calc_locs :: "dict \<Rightarrow> pyval list \<Rightarrow> pyval \<Rightarrow> error + pyval" where
  "scan_calc_locs self [] calc_dir = Inr calc_dir"
| "scan_calc_locs self (doc # docs) calc_dir =
     (case py_getitem doc ''name'' of
        Inl e \<Rightarrow> Inl e
      | Inr name \<Rightarrow>
          (case dict_item self ''calc_loc_name'' of
             Inl e \<Rightarrow> Inl e
           | Inr wanted \<Rightarrow>
               if py_eq name wanted then py_getitem doc ''path''
               else scan_calc_locs self docs calc_dir))"

definition resolve_calc_dir :: "dict \<Rightarrow> dict \<Rightarrow> string \<Rightarrow> error + pyval" where
  "resolve_calc_dir self fw_spec cwd =
     (if dict_has self ''calc_dir'' then dict_item self ''calc_dir''
      else if py_truthy (dict_get self ''calc_loc'') then
        (case dict_item self ''calc_loc'' of
           Inl e \<Rightarrow> Inl e
         | Inr sel \<Rightarrow>
             if is_string sel then
               (case dict_item fw_spec ''calc_locs'' of
                  Inl e \<Rightarrow> Inl e
                | Inr locs \<Rightarrow>
                    (case py_reversed locs of
                       Inl e \<Rightarrow> Inl e
                     | Inr docs \<Rightarrow> scan_calc_locs self docs (PStr cwd)))
             else
               (case dict_item fw_spec ''calc_locs'' of
                  Inl e \<Rightarrow> Inl e
                | Inr locs \<Rightarrow>
                    (case py_last locs of
                       Inl e \<Rightarrow> Inl e
                     | Inr doc \<Rightarrow> py_getitem doc ''path'')))
      else Inr (PStr cwd))"

section \<open>Collaborators, state and effects\<close>

text \<open>
  What the tasks call and this file does not define: the drones, the two JSON encoders,
  \<^verbatim>\<open>env_chk\<close>, \<^verbatim>\<open>get_settings\<close>, the database class \<^verbatim>\<open>MMDb\<close> and the file
  \<^verbatim>\<open>task.json\<close>. Each is a parameter that returns a value or raises. A call that
  reaches the outside world (file, database, GridFS) is recorded as an \<open>event\<close>, and the
  answer of such a call may depend on all the calls made before it. \<^verbatim>\<open>db.insert\<close>
  receives the task document itself and may change it, so it returns the identifier
  together with the document as the call leaves it. Log messages are not modelled.
\<close>

record conn =
  host :: pyval
  port :: pyval
  database :: pyval
  user :: pyval
  password :: pyval
  collection :: pyval

datatype event =
    FileOpen string
  | FileWrite string string
  | Connect conn
  | BuildIndices pyval
  | GridfsInsert string string
  | DocInsert pyval

record VaspDrone_args =
  additional_fields :: pyval
  parse_dos :: pyval
  compress_dos :: pyval
  bandstructure_mode :: pyval
  compress_bs :: pyval

record env =
  env_chk :: "pyval \<Rightarrow> dict \<Rightarrow> error + pyval"
  VaspDrone_assimilate :: "VaspDrone_args \<Rightarrow> pyval \<Rightarrow> error + pyval"
  class_assimilate :: "string \<Rightarrow> pyval \<Rightarrow> error + pyval"
  dumps_datetime :: "pyval \<Rightarrow> error + string"
  dumps_monty :: "pyval \<Rightarrow> error + string"
  file_open :: "event list \<Rightarrow> string \<Rightarrow> error + unit"
  file_write :: "event list \<Rightarrow> string \<Rightarrow> string \<Rightarrow> error + unit"
  get_settings :: "pyval \<Rightarrow> error + pyval"
  MMDb :: "event list \<Rightarrow> conn \<Rightarrow> error + unit"
  db_build :: "event list \<Rightarrow> pyval \<Rightarrow> error + unit"
  db_insert_gridfs :: "event list \<Rightarrow> string \<Rightarrow> string \<Rightarrow> error + pyval \<times> pyval"
  db_insert :: "event list \<Rightarrow> pyval \<Rightarrow> error + pyval \<times> pyval"

text \<open>
  The state of a run: the local variable \<^verbatim>\<open>task_doc\<close> and the calls made so far.
  A statement is a function from the state to a result (a value, or the exception that
  ends the run) and the state it leaves, also when it raises.
\<close>

record st =
  task_doc :: pyval
  trace :: "event list"

type_synonym 'a prog = "st \<Rightarrow> (error + 'a) \<times> st"

definition ret :: "'a \<Rightarrow> 'a prog" where
  "ret x s = (Inr x, s)"

definition bnd :: "'a prog \<Rightarrow> ('a \<Rightarrow> 'b prog) \<Rightarrow> 'b prog" where
  "bnd m f s = (case m s of (Inl e, s') \<Rightarrow> (Inl e, s') | (Inr x, s') \<Rightarrow> f x s')"

definition lift :: "error + 'a \<Rightarrow> 'a prog" where
  \<comment> \<open>an expression that reads no state\<close>
  "lift r s = (r, s)"

definition get_doc :: "pyval prog" where
  "get_doc s = (Inr (task_doc s), s)"

definition set_doc :: "pyval \<Rightarrow> unit prog" where
  "set_doc d s = (Inr (), s\<lparr>task_doc := d\<rparr>)"

definition call :: "event \<Rightarrow> (event list \<Rightarrow> error + 'a) \<Rightarrow> 'a prog" where
  \<comment> \<open>a call to the outside world: recorded, then answered\<close>
  "call ev f s = (f (trace s), s\<lparr>trace := trace s @ [ev]\<rparr>)"

section \<open>Moving a field of the latest calculation to GridFS\<close>

text \<open>
  \<^verbatim>\<open>task_doc["calcs_reversed"][0]\<close>, and the two kinds of statement that change that
  dict in place. In the tree of values the changed dict is put back where it was read.
\<close>

definition calc0 :: "pyval prog" where
  "calc0 =
     bnd get_doc (\<lambda>d.
     bnd (lift (py_getitem d ''calcs_reversed'')) (\<lambda>calcs.
     lift (py_first calcs)))"

definition put_calc0 :: "pyval \<Rightarrow> unit prog" where
  "put_calc0 c =
     bnd get_doc (\<lambda>d.
     case d of
       PDict dd \<Rightarrow>
         (case map_of dd ''calcs_reversed'' of
            Some (PList (x # xs)) \<Rightarrow>
              set_doc (PDict (AList.update ''calcs_reversed'' (PList (c # xs)) dd))
          | _ \<Rightarrow> ret ())
     | _ \<Rightarrow> ret ())"

definition calc0_setitem :: "string \<Rightarrow> pyval \<Rightarrow> unit prog" where
  \<comment> \<open>\<^verbatim>\<open>task_doc["calcs_reversed"][0][k] = v\<close>\<close>
  "calc0_setitem k v =
     bnd calc0 (\<lambda>c.
     bnd (lift (py_setitem c k v)) (\<lambda>c'.
     put_calc0 c'))"

definition calc0_delitem :: "string \<Rightarrow> unit prog" where
  \<comment> \<open>\<^verbatim>\<open>del task_doc["calcs_reversed"][0][k]\<close>\<close>
  "calc0_delitem k =
     bnd calc0 (\<lambda>c.
     bnd (lift (py_delitem c k)) (\<lambda>c'.
     put_calc0 c'))"

text \<open>
  Lines 92--98 and 99--105 of \<^verbatim>\<open>VaspToDbTask.run_task\<close> are one block written
  twice, for \<^verbatim>\<open>"dos"\<close> (flag \<^verbatim>\<open>parse_dos\<close>, collection \<^verbatim>\<open>"dos_fs"\<close>) and for
  \<^verbatim>\<open>"bandstructure"\<close> (flag \<^verbatim>\<open>bandstructure_mode\<close>, collection
  \<^verbatim>\<open>"bandstructure_fs"\<close>):
  \<^verbatim>\<open>
  if self.get("parse_dos", False) and "calcs_reversed" in task_doc:
      if "dos" in task_doc["calcs_reversed"][0]:
          dos = json.dumps(task_doc["calcs_reversed"][0]["dos"], cls=MontyEncoder)
          gfs_id, compression_type = db.insert_gridfs(dos, "dos_fs")
          task_doc["calcs_reversed"][0]["dos_compression"] = compression_type
          task_doc["calcs_reversed"][0]["dos_fs_id"] = gfs_id
          del task_doc["calcs_reversed"][0]["dos"]
  \<close>
  \<open>offload_field\<close> is that block for the field \<open>fld\<close> and the collection \<open>ns\<close>.
\<close>

definition offload_field :: "env \<Rightarrow> pyval \<Rightarrow> string \<Rightarrow> string \<Rightarrow> unit prog" where
  "offload_field E flag fld ns =
     (if \<not> py_truthy flag then ret ()
      else
        bnd get_doc (\<lambda>d.
        bnd (lift (py_contains ''calcs_reversed'' d)) (\<lambda>has_calcs.
        if \<not> has_calcs then ret ()
        else
          bnd calc0 (\<lambda>c.
          bnd (lift (py_contains fld c)) (\<lambda>has_fld.
          if \<not> has_fld then ret ()
          else
            bnd calc0 (\<lambda>c.
            bnd (lift (py_getitem c fld)) (\<lambda>payload.
            bnd (lift (dumps_monty E payload)) (\<lambda>txt.
            bnd (call (GridfsInsert txt ns) (\<lambda>tr. db_insert_gridfs E tr txt ns)) (\<lambda>(gfs_id, compression_type).
            bnd (calc0_setitem (fld @ ''_compression'') compression_type) (\<lambda>_.
            bnd (calc0_setitem (fld @ ''_fs_id'') gfs_id) (\<lambda>_.
            calc0_delitem fld)))))))))))"

section \<open>The two tasks\<close>

text \<open>
  The action a task returns:
  \<^verbatim>\<open>FWAction(stored_data={"task_id": ...}, defuse_children=...)\<close>.
\<close>

record FWAction =
  stored_data :: dict
  defuse_children :: bool

definition report :: "FWAction prog" where
  \<comment> \<open>lines 109--110 and 172--173\<close>
  "report =
     bnd get_doc (\<lambda>d.
     bnd (lift (py_get d ''task_id'')) (\<lambda>tid.
     bnd (lift (py_getitem d ''state'')) (\<lambda>state.
     ret \<lparr>stored_data = [(''task_id'', tid)],
          defuse_children = (\<not> py_eq state (PStr ''successful''))\<rparr>)))"

definition write_task_json :: "env \<Rightarrow> unit prog" where
  \<comment> \<open>lines 80--81 and 160--161: the file is opened before the document is encoded\<close>
  "write_task_json E =
     bnd (call (FileOpen ''task.json'') (\<lambda>tr. file_open E tr ''task.json'')) (\<lambda>_.
     bnd get_doc (\<lambda>d.
     bnd (lift (dumps_datetime E d)) (\<lambda>txt.
     call (FileWrite ''task.json'' txt) (\<lambda>tr. file_write E tr ''task.json'' txt))))"

definition connect_db :: "env \<Rightarrow> pyval \<Rightarrow> unit prog" where
  \<comment> \<open>lines 83--86 and 163--167\<close>
  "connect_db E db_file =
     bnd (lift (get_settings E db_file)) (\<lambda>db_config.
     bnd (lift (py_getitem db_config ''host'')) (\<lambda>h.
     bnd (lift (py_getitem db_config ''port'')) (\<lambda>p.
     bnd (lift (py_getitem db_config ''database'')) (\<lambda>dbn.
     bnd (lift (py_get db_config ''admin_user'')) (\<lambda>u.
     bnd (lift (py_get db_config ''admin_password'')) (\<lambda>pw.
     bnd (lift (py_getitem db_config ''collection'')) (\<lambda>coll.
     let c = \<lparr>host = h, port = p, database = dbn, user = u, password = pw, collection = coll\<rparr>
     in call (Connect c) (\<lambda>tr. MMDb E tr c))))))))"

definition build_indices :: "env \<Rightarrow> dict \<Rightarrow> unit prog" where
  \<comment> \<open>lines 88--90\<close>
  "build_indices E self =
     (if py_truthy (dict_get_default self ''build_db'' (PBool False)) then
        (if py_truthy (dict_get self ''db_indices'') then
           call (BuildIndices (dict_get self ''db_indices''))
             (\<lambda>tr. db_build E tr (dict_get self ''db_indices''))
         else ret ())
      else ret ())"

definition insert_task_doc :: "env \<Rightarrow> pyval prog" where
  \<comment> \<open>lines 107 and 169: \<^verbatim>\<open>t_id = db.insert(task_doc)\<close>\<close>
  "insert_task_doc E =
     bnd get_doc (\<lambda>d.
     bnd (call (DocInsert d) (\<lambda>tr. db_insert E tr d)) (\<lambda>(t_id, d').
     bnd (set_doc d') (\<lambda>_.
     ret t_id)))"

definition VaspToDbTask_run_task :: "env \<Rightarrow> dict \<Rightarrow> dict \<Rightarrow> string \<Rightarrow> FWAction prog" where
  "VaspToDbTask_run_task E self fw_spec cwd =
     bnd (lift (resolve_calc_dir self fw_spec cwd)) (\<lambda>calc_dir.
     bnd (lift (env_chk E (dict_get self ''db_file'') fw_spec)) (\<lambda>db_file.
     bnd (set_doc PNone) (\<lambda>_.
     bnd (lift (VaspDrone_assimilate E
            \<lparr>additional_fields = dict_get self ''additional_fields'',
             parse_dos = dict_get_default self ''parse_dos'' (PBool False),
             compress_dos = PInt 1,
             bandstructure_mode = dict_get_default self ''bandstructure_mode'' (PBool False),
             compress_bs = PInt 1\<rparr> calc_dir)) (\<lambda>doc.
     bnd (set_doc doc) (\<lambda>_.
     bnd (if \<not> py_truthy db_file then write_task_json E
          else
            bnd (connect_db E db_file) (\<lambda>_.
            bnd (build_indices E self) (\<lambda>_.
            bnd (offload_field E (dict_get_default self ''parse_dos'' (PBool False))
                   ''dos'' ''dos_fs'') (\<lambda>_.
            bnd (offload_field E (dict_get_default self ''bandstructure_mode'' (PBool False))
                   ''bandstructure'' ''bandstructure_fs'') (\<lambda>_.
            bnd (insert_task_doc E) (\<lambda>t_id.
            ret ())))))) (\<lambda>_.
     report))))))"

text \<open>
  \<^verbatim>\<open>ToDbTask\<close> reads \<^verbatim>\<open>self['drone']\<close> for its log line (line 151) and again at
  line 157, \<^verbatim>\<open>drone = self['drone'].__class__()\<close>: a new object of the same class,
  built with no argument. Only an instance of a drone class has \<^verbatim>\<open>assimilate\<close>.
\<close>

definition fresh_assimilate :: "env \<Rightarrow> pyval \<Rightarrow> pyval \<Rightarrow> error + pyval" where
  \<comment> \<open>lines 157--158\<close>
  "fresh_assimilate E drone calc_dir =
     (case drone of
        PInst cls attrs \<Rightarrow> class_assimilate E cls calc_dir
      | _ \<Rightarrow> Inl AttributeError)"

definition ToDbTask_run_task :: "env \<Rightarrow> dict \<Rightarrow> dict \<Rightarrow> string \<Rightarrow> FWAction prog" where
  "ToDbTask_run_task E self fw_spec cwd =
     bnd (lift (resolve_calc_dir self fw_spec cwd)) (\<lambda>calc_dir.
     bnd (lift (dict_item self ''drone'')) (\<lambda>logged.
     bnd (lift (env_chk E (dict_get self ''db_file'') fw_spec)) (\<lambda>db_file.
     bnd (set_doc PNone) (\<lambda>_.
     bnd (lift (dict_item self ''drone'')) (\<lambda>drone.
     bnd (lift (fresh_assimilate E drone calc_dir)) (\<lambda>doc.
     bnd (set_doc doc) (\<lambda>_.
     bnd (if \<not> py_truthy db_file then write_task_json E
          else
            bnd (connect_db E db_file) (\<lambda>_.
            bnd (insert_task_doc E) (\<lambda>t_id.
            ret ()))) (\<lambda>_.
     report))))))))"

section \<open>Vocabulary of the properties\<close>

text \<open>
  A payload field of a calculation dict is held inline under its own name, or by
  reference under the two keys \<^verbatim>\<open><field>_fs_id\<close> and \<^verbatim>\<open><field>_compression\<close>.
\<close>

definition inline_present :: "dict \<Rightarrow> string \<Rightarrow> bool" where
  "inline_present c fld = dict_has c fld"

definition reference_present :: "dict \<Rightarrow> string \<Rightarrow> bool" where
  "reference_present c fld = (dict_has c (fld @ ''_fs_id'') \<and> dict_has c (fld @ ''_compression''))"

text \<open>The calculation dict after the three assignments of a completed offload.\<close>

definition offloaded :: "string \<Rightarrow> pyval \<Rightarrow> pyval \<Rightarrow> dict \<Rightarrow> dict" where
  "offloaded fld gfs_id compression_type c =
     AList.delete fld (AList.update (fld @ ''_fs_id'') gfs_id
       (AList.update (fld @ ''_compression'') compression_type c))"

text \<open>The events of a run that go to GridFS or to the task collection.\<close>

fun is_store_call :: "event \<Rightarrow> bool" where
  "is_store_call (FileOpen name) = False"
| "is_store_call (FileWrite name txt) = False"
| "is_store_call _ = True"

subsection \<open>A concrete run\<close>

text \<open>
  A task document with two calculations, a database configuration, and collaborators
  that all succeed: the drone returns the document, GridFS numbers its files by the calls
  made so far and compresses with zlib, and \<^verbatim>\<open>db.insert\<close> returns 42 and leaves the
  document as it is. Two variants: GridFS unreachable, and an \<^verbatim>\<open>insert\<close> that stores
  the identifier it returns in the document, as a counter-based task store does.
\<close>

definition example_calc :: dict where
  "example_calc =
     [(''task'', PStr ''static''), (''dos'', PList [PInt 1, PInt 2]),
      (''bandstructure'', PDict [(''bands'', PInt 3)])]"

definition example_fields :: dict where
  "example_fields =
     [(''state'', PStr ''successful''), (''task_id'', PInt 7),
      (''calcs_reversed'',
         PList [PDict example_calc, PDict [(''task'', PStr ''relax''), (''dos'', PInt 0)]])]"

definition example_doc :: pyval where
  "example_doc = PDict example_fields"

definition example_config :: pyval where
  "example_config =
     PDict [(''host'', PStr ''localhost''), (''port'', PInt 27017), (''database'', PStr ''vasp''),
            (''collection'', PStr ''tasks'')]"

definition example_env :: env where
  "example_env =
     \<lparr>env_chk = (\<lambda>v spec. Inr v),
      VaspDrone_assimilate = (\<lambda>args dir. Inr example_doc),
      class_assimilate = (\<lambda>cls dir. Inr example_doc),
      dumps_datetime = (\<lambda>v. Inr ''{doc}''),
      dumps_monty = (\<lambda>v. Inr ''{payload}''),
      file_open = (\<lambda>tr name. Inr ()),
      file_write = (\<lambda>tr name txt. Inr ()),
      get_settings = (\<lambda>f. Inr example_config),
      MMDb = (\<lambda>tr c. Inr ()),
      db_build = (\<lambda>tr idx. Inr ()),
      db_insert_gridfs = (\<lambda>tr txt ns. Inr (PInt (int (length tr)), PStr ''zlib'')),
      db_insert = (\<lambda>tr d. Inr (PInt 42, d))\<rparr>"

definition gridfs_down_env :: env where
  "gridfs_down_env =
     example_env\<lparr>db_insert_gridfs := (\<lambda>tr txt ns. Inl (Raised ''ConnectionFailure''))\<rparr>"

definition numbering_env :: env where
  "numbering_env =
     example_env\<lparr>db_insert := (\<lambda>tr d. Inr (PInt 42,
        case d of PDict dd \<Rightarrow> PDict (AList.update ''task_id'' (PInt 42) dd) | _ \<Rightarrow> d))\<rparr>"

definition example_st :: st where
  "example_st = \<lparr>task_doc = example_doc, trace = []\<rparr>"

definition start_st :: st where
  "start_st = \<lparr>task_doc = PNone, trace = []\<rparr>"

section \<open>Properties\<close>

subsection \<open>Auxiliary facts\<close>

lemma py_eq_PStr: "py_eq v (PStr s) = (v = PStr s)"
  by (cases v) auto

lemmas prog_defs = bnd_def ret_def lift_def get_doc_def set_doc_def call_def

lemmas offload_defs = offload_field_def calc0_setitem_def calc0_delitem_def calc0_def put_calc0_def
  prog_defs py_contains_def py_getitem_def py_first_def py_setitem_def py_delitem_def
  dict_has_def dict_item_def

lemma offloaded_lookup:
  "map_of (offloaded fld g ct c) k =
     (if k = fld then None
      else if k = fld @ ''_fs_id'' then Some g
      else if k = fld @ ''_compression'' then Some ct
      else map_of c k)"
  by (simp add: offloaded_def update_conv' delete_conv')

text \<open>A completed offload, in one equation.\<close>

lemma offload_field_success:
  assumes flag: "py_truthy flag"
    and doc: "task_doc s = PDict dd"
    and calcs: "map_of dd ''calcs_reversed'' = Some (PList (PDict c # rest))"
    and fld: "map_of c fld = Some payload"
    and dumps: "dumps_monty E payload = Inr txt"
    and gridfs: "db_insert_gridfs E (trace s) txt ns = Inr (gfs_id, compression_type)"
  shows "offload_field E flag fld ns s =
    (Inr (), s\<lparr>task_doc := PDict (AList.update ''calcs_reversed''
                   (PList (PDict (offloaded fld gfs_id compression_type c) # rest)) dd),
               trace := trace s @ [GridfsInsert txt ns]\<rparr>)"
  using assms by (simp add: offload_defs offloaded_def update_conv')

text \<open>
  Every way an offload can end: nothing happened; it raised before any call; GridFS
  raised, with the call recorded and the document as it was; or it completed.
\<close>

lemma offload_field_cases:
  assumes run: "offload_field E flag fld ns s = (r, s')"
  shows "(r = Inr () \<and> s' = s)
       \<or> (\<exists>e. r = Inl e \<and> s' = s)
       \<or> (\<exists>dd c rest payload txt.
             py_truthy flag \<and> task_doc s = PDict dd
           \<and> map_of dd ''calcs_reversed'' = Some (PList (PDict c # rest))
           \<and> map_of c fld = Some payload \<and> dumps_monty E payload = Inr txt
           \<and> ((\<exists>e. db_insert_gridfs E (trace s) txt ns = Inl e \<and> r = Inl e
                    \<and> s' = s\<lparr>trace := trace s @ [GridfsInsert txt ns]\<rparr>)
              \<or> (\<exists>g ct. db_insert_gridfs E (trace s) txt ns = Inr (g, ct) \<and> r = Inr ()
                    \<and> s' = s\<lparr>task_doc := PDict (AList.update ''calcs_reversed''
                                 (PList (PDict (offloaded fld g ct c) # rest)) dd),
                              trace := trace s @ [GridfsInsert txt ns]\<rparr>)))"
proof (cases "py_truthy flag")
  case False
  with run show ?thesis by (simp add: offload_field_def ret_def)
next
  case flag: True
  show ?thesis
  proof (cases "\<exists>dd c rest payload. task_doc s = PDict dd
           \<and> map_of dd ''calcs_reversed'' = Some (PList (PDict c # rest))
           \<and> map_of c fld = Some payload")
    case True
    then obtain dd c rest payload where doc: "task_doc s = PDict dd"
      and calcs: "map_of dd ''calcs_reversed'' = Some (PList (PDict c # rest))"
      and fld: "map_of c fld = Some payload" by blast
    show ?thesis
    proof (cases "dumps_monty E payload")
      case (Inl e)
      with run flag doc calcs fld have "r = Inl e \<and> s' = s"
        by (auto simp: offload_defs)
      then show ?thesis by simp
    next
      case dumps: (Inr encoded)
      show ?thesis
      proof (cases "db_insert_gridfs E (trace s) encoded ns")
        case (Inl e)
        with run flag doc calcs fld dumps
        have "r = Inl e \<and> s' = s\<lparr>trace := trace s @ [GridfsInsert encoded ns]\<rparr>"
          by (auto simp: offload_defs)
        with flag doc calcs fld dumps Inl show ?thesis by auto
      next
        case (Inr p)
        obtain g ct where p: "p = (g, ct)" by (cases p)
        from offload_field_success [OF flag doc calcs fld dumps Inr [unfolded p]] run
        have "r = Inr () \<and> s' = s\<lparr>task_doc := PDict (AList.update ''calcs_reversed''
                                 (PList (PDict (offloaded fld g ct c) # rest)) dd),
                              trace := trace s @ [GridfsInsert encoded ns]\<rparr>"
          by simp
        with flag doc calcs fld dumps Inr p show ?thesis by auto
      qed
    qed
  next
    case False
    with run flag have "(r = Inr () \<or> (\<exists>e. r = Inl e)) \<and> s' = s"
      by (auto simp: offload_defs split: pyval.splits list.splits option.splits if_splits)
    then show ?thesis by auto
  qed
qed

subsection \<open>Offloading\<close>

text \<open>
  C1. Take a task document whose \<^verbatim>\<open>calcs_reversed\<close> is a non-empty list, an enabled
  field that the dict of the latest calculation holds, an encoder and a GridFS that
  answer. Then the offload completes, and afterwards that dict holds the field by
  reference (both \<^verbatim>\<open>_fs_id\<close> and \<^verbatim>\<open>_compression\<close>, with the values GridFS returned) and
  no longer inline: exactly one of the two forms.
\<close>

theorem offload_inline_xor_reference:
  assumes "py_truthy flag"
    and "task_doc s = PDict dd"
    and "map_of dd ''calcs_reversed'' = Some (PList (PDict c # rest))"
    and "map_of c fld = Some payload"
    and "dumps_monty E payload = Inr txt"
    and "db_insert_gridfs E (trace s) txt ns = Inr (gfs_id, compression_type)"
  shows "\<exists>s' dd' c'.
           offload_field E flag fld ns s = (Inr (), s')
         \<and> task_doc s' = PDict dd'
         \<and> map_of dd' ''calcs_reversed'' = Some (PList (PDict c' # rest))
         \<and> \<not> inline_present c' fld \<and> reference_present c' fld
         \<and> inline_present c' fld \<noteq> reference_present c' fld
         \<and> map_of c' (fld @ ''_fs_id'') = Some gfs_id
         \<and> map_of c' (fld @ ''_compression'') = Some compression_type"
  using offload_field_success [OF assms]
  by (simp add: update_conv' offloaded_lookup inline_present_def reference_present_def dict_has_def)

theorem offload_inline_xor_reference_witness:
  "\<exists>s' dd' c'.
       offload_field example_env (PBool True) ''dos'' ''dos_fs'' example_st = (Inr (), s')
     \<and> task_doc s' = PDict dd'
     \<and> map_of dd' ''calcs_reversed''
         = Some (PList (PDict c' # [PDict [(''task'', PStr ''relax''), (''dos'', PInt 0)]]))
     \<and> \<not> inline_present c' ''dos'' \<and> reference_present c' ''dos''
     \<and> inline_present c' ''dos'' \<noteq> reference_present c' ''dos''
     \<and> map_of c' ''dos_fs_id'' = Some (PInt 0)
     \<and> map_of c' ''dos_compression'' = Some (PStr ''zlib'')"
  using offload_inline_xor_reference [of "PBool True" example_st example_fields example_calc
      "[PDict [(''task'', PStr ''relax''), (''dos'', PInt 0)]]"
      "''dos''" "PList [PInt 1, PInt 2]" example_env "''{payload}''" "''dos_fs''"
      "PInt 0" "PStr ''zlib''"]
  by (simp add: example_st_def example_doc_def example_fields_def example_calc_def example_env_def)

text \<open>
  C10. Under the conditions of C1, a completed offload leaves the top-level keys of the
  document and their order as they were, changes no top-level value but that of
  \<^verbatim>\<open>calcs_reversed\<close> (so \<^verbatim>\<open>state\<close> and \<^verbatim>\<open>task_id\<close> are untouched), keeps every
  later calculation, and in the dict of the latest calculation changes nothing but the
  field and its two reference keys.
\<close>

theorem offload_frame:
  assumes "py_truthy flag"
    and "task_doc s = PDict dd"
    and "map_of dd ''calcs_reversed'' = Some (PList (PDict c # rest))"
    and "map_of c fld = Some payload"
    and "dumps_monty E payload = Inr txt"
    and "db_insert_gridfs E (trace s) txt ns = Inr (gfs_id, compression_type)"
  shows "\<exists>s' dd' c'.
           offload_field E flag fld ns s = (Inr (), s')
         \<and> task_doc s' = PDict dd'
         \<and> map fst dd' = map fst dd
         \<and> (\<forall>k. k \<noteq> ''calcs_reversed'' \<longrightarrow> map_of dd' k = map_of dd k)
         \<and> map_of dd' ''calcs_reversed'' = Some (PList (PDict c' # rest))
         \<and> (\<forall>k. k \<notin> {fld, fld @ ''_fs_id'', fld @ ''_compression''} \<longrightarrow> map_of c' k = map_of c k)"
proof -
  have keys: "map fst (AList.update ''calcs_reversed'' v dd) = map fst dd" for v
    using assms(3) by (simp add: update_keys map_of_eq_None_iff [symmetric])
  show ?thesis
    using offload_field_success [OF assms]
    by (simp add: update_conv' offloaded_lookup keys)
qed

theorem offload_frame_witness:
  "\<exists>s' dd' c'.
       offload_field example_env (PBool True) ''dos'' ''dos_fs'' example_st = (Inr (), s')
     \<and> task_doc s' = PDict dd'
     \<and> map fst dd' = [''state'', ''task_id'', ''calcs_reversed'']
     \<and> map_of dd' ''state'' = Some (PStr ''successful'')
     \<and> map_of dd' ''task_id'' = Some (PInt 7)
     \<and> map_of dd' ''calcs_reversed''
         = Some (PList (PDict c' # [PDict [(''task'', PStr ''relax''), (''dos'', PInt 0)]]))
     \<and> map_of c' ''task'' = Some (PStr ''static'')
     \<and> map_of c' ''bandstructure'' = Some (PDict [(''bands'', PInt 3)])"
proof -
  from offload_frame [of "PBool True" example_st example_fields example_calc
      "[PDict [(''task'', PStr ''relax''), (''dos'', PInt 0)]]"
      "''dos''" "PList [PInt 1, PInt 2]" example_env "''{payload}''" "''dos_fs''"
      "PInt 0" "PStr ''zlib''"]
  obtain s' dd' c' where
    run: "offload_field example_env (PBool True) ''dos'' ''dos_fs'' example_st = (Inr (), s')"
    and doc: "task_doc s' = PDict dd'"
    and keys: "map fst dd' = map fst example_fields"
    and top: "\<forall>k. k \<noteq> ''calcs_reversed'' \<longrightarrow> map_of dd' k = map_of example_fields k"
    and calcs: "map_of dd' ''calcs_reversed''
         = Some (PList (PDict c' # [PDict [(''task'', PStr ''relax''), (''dos'', PInt 0)]]))"
    and other: "\<forall>k. k \<notin> {''dos'', ''dos'' @ ''_fs_id'', ''dos'' @ ''_compression''}
         \<longrightarrow> map_of c' k = map_of example_calc k"
    by (auto simp: example_st_def example_doc_def example_fields_def example_calc_def example_env_def)
  have "map_of dd' ''state'' = Some (PStr ''successful'')" "map_of dd' ''task_id'' = Some (PInt 7)"
    using top by (simp_all add: example_fields_def)
  moreover have "map_of c' ''task'' = Some (PStr ''static'')"
    "map_of c' ''bandstructure'' = Some (PDict [(''bands'', PInt 3)])"
    using other by (simp_all add: example_calc_def)
  moreover have "map fst dd' = [''state'', ''task_id'', ''calcs_reversed'']"
    using keys by (simp add: example_fields_def)
  ultimately show ?thesis using run doc calcs by simp
qed

text \<open>
  C5. However an offload ends: if it raised, the task document is the one it started
  with; and if the document differs, the offload completed and GridFS had returned its
  pair before. An encoder that raises ends the offload with that exception before any
  call; a GridFS that raises ends it with that exception, the call made and the document
  untouched.
\<close>

theorem offload_failure_leaves_document:
  assumes "offload_field E flag fld ns s = (r, s')"
  shows "(\<forall>e. r = Inl e \<longrightarrow> task_doc s' = task_doc s)
       \<and> (task_doc s' \<noteq> task_doc s \<longrightarrow>
            r = Inr () \<and> (\<exists>txt g ct. db_insert_gridfs E (trace s) txt ns = Inr (g, ct)
                              \<and> trace s' = trace s @ [GridfsInsert txt ns]))
       \<and> (\<forall>dd c rest payload e.
              py_truthy flag \<and> task_doc s = PDict dd
            \<and> map_of dd ''calcs_reversed'' = Some (PList (PDict c # rest))
            \<and> map_of c fld = Some payload \<and> dumps_monty E payload = Inl e
            \<longrightarrow> r = Inl e \<and> s' = s)
       \<and> (\<forall>dd c rest payload txt e.
              py_truthy flag \<and> task_doc s = PDict dd
            \<and> map_of dd ''calcs_reversed'' = Some (PList (PDict c # rest))
            \<and> map_of c fld = Some payload \<and> dumps_monty E payload = Inr txt
            \<and> db_insert_gridfs E (trace s) txt ns = Inl e
            \<longrightarrow> r = Inl e \<and> s' = s\<lparr>trace := trace s @ [GridfsInsert txt ns]\<rparr>)"
proof (intro conjI)
  show "\<forall>e. r = Inl e \<longrightarrow> task_doc s' = task_doc s"
    using offload_field_cases [OF assms] by auto
  show "task_doc s' \<noteq> task_doc s \<longrightarrow>
            r = Inr () \<and> (\<exists>txt g ct. db_insert_gridfs E (trace s) txt ns = Inr (g, ct)
                              \<and> trace s' = trace s @ [GridfsInsert txt ns])"
    using offload_field_cases [OF assms] by auto
  show "\<forall>dd c rest payload e.
              py_truthy flag \<and> task_doc s = PDict dd
            \<and> map_of dd ''calcs_reversed'' = Some (PList (PDict c # rest))
            \<and> map_of c fld = Some payload \<and> dumps_monty E payload = Inl e
            \<longrightarrow> r = Inl e \<and> s' = s"
    using assms by (auto simp: offload_defs)
  show "\<forall>dd c rest payload txt e.
              py_truthy flag \<and> task_doc s = PDict dd
            \<and> map_of dd ''calcs_reversed'' = Some (PList (PDict c # rest))
            \<and> map_of c fld = Some payload \<and> dumps_monty E payload = Inr txt
            \<and> db_insert_gridfs E (trace s) txt ns = Inl e
            \<longrightarrow> r = Inl e \<and> s' = s\<lparr>trace := trace s @ [GridfsInsert txt ns]\<rparr>"
    using assms by (auto simp: offload_defs)
qed

theorem offload_failure_leaves_document_witness:
  "offload_field gridfs_down_env (PBool True) ''dos'' ''dos_fs'' example_st
     = (Inl (Raised ''ConnectionFailure''),
        example_st\<lparr>trace := [GridfsInsert ''{payload}'' ''dos_fs'']\<rparr>)
   \<and> task_doc (example_st\<lparr>trace := [GridfsInsert ''{payload}'' ''dos_fs'']\<rparr>) = example_doc"
  using offload_failure_leaves_document [of gridfs_down_env "PBool True" "''dos''" "''dos_fs''"
      example_st "Inl (Raised ''ConnectionFailure'')"
      "example_st\<lparr>trace := [GridfsInsert ''{payload}'' ''dos_fs'']\<rparr>"]
  by (simp add: offload_defs gridfs_down_env_def example_env_def example_st_def example_doc_def
      example_fields_def example_calc_def)

text \<open>
  C6, amended. For a task document (a dict) without the key \<^verbatim>\<open>calcs_reversed\<close>, the
  offload of any field returns normally and leaves document and calls as they were. When
  \<^verbatim>\<open>calcs_reversed\<close> is the empty list, document and calls are still as they were.
\<close>

theorem offload_without_calcs:
  assumes "task_doc s = PDict dd"
  shows "(map_of dd ''calcs_reversed'' = None \<longrightarrow> offload_field E flag fld ns s = (Inr (), s))
       \<and> (map_of dd ''calcs_reversed'' = Some (PList []) \<longrightarrow> snd (offload_field E flag fld ns s) = s)"
  using assms by (auto simp: offload_defs)

theorem offload_without_calcs_witness:
  "offload_field example_env (PBool True) ''dos'' ''dos_fs''
     \<lparr>task_doc = PDict [(''state'', PStr ''error'')], trace = []\<rparr>
   = (Inr (), \<lparr>task_doc = PDict [(''state'', PStr ''error'')], trace = []\<rparr>)"
  using offload_without_calcs [of "\<lparr>task_doc = PDict [(''state'', PStr ''error'')], trace = []\<rparr>"
      "[(''state'', PStr ''error'')]" example_env "PBool True" "''dos''" "''dos_fs''"]
  by simp

text \<open>
  C6 as stated fails where \<^verbatim>\<open>calcs_reversed\<close> is the empty list: the key is there, so
  line 93 reads \<^verbatim>\<open>task_doc["calcs_reversed"][0]\<close>, which raises \<^verbatim>\<open>IndexError\<close>.
\<close>

theorem offload_empty_calcs_counterexample:
  "offload_field example_env (PBool True) ''dos'' ''dos_fs''
     \<lparr>task_doc = PDict [(''state'', PStr ''successful''), (''calcs_reversed'', PList [])], trace = []\<rparr>
   = (Inl IndexError,
      \<lparr>task_doc = PDict [(''state'', PStr ''successful''), (''calcs_reversed'', PList [])], trace = []\<rparr>)"
  by (simp add: offload_defs)

subsection \<open>Finding the directory\<close>

text \<open>
  C2. The docstring of both tasks says of \<^verbatim>\<open>calc_loc\<close>: ``If str search for the most
  recent calc_loc with the matching name''. The loop compares each record's name with
  \<^verbatim>\<open>self["calc_loc_name"]\<close> instead, a key that is not among the task's parameters.
  With \<^verbatim>\<open>calc_loc = "relax"\<close> and a history holding a record of that name, the run
  ends with \<^verbatim>\<open>KeyError\<close>; and when the task does carry a \<^verbatim>\<open>calc_loc_name\<close>, it is
  that name, not the selector, that decides: here the path of \<^verbatim>\<open>static\<close> is returned
  although \<^verbatim>\<open>relax\<close> was asked for and is the most recent record.
\<close>

theorem named_location_ignores_selector:
  "resolve_calc_dir [(''calc_loc'', PStr ''relax'')]
     [(''calc_locs'', PList [PDict [(''name'', PStr ''relax''), (''path'', PStr ''/run/relax'')]])]
     ''/cwd'' = Inl (KeyError ''calc_loc_name'')
   \<and> resolve_calc_dir [(''calc_loc'', PStr ''relax''), (''calc_loc_name'', PStr ''static'')]
     [(''calc_locs'', PList [PDict [(''name'', PStr ''static''), (''path'', PStr ''/run/static'')],
                            PDict [(''name'', PStr ''relax''), (''path'', PStr ''/run/relax'')]])]
     ''/cwd'' = Inr (PStr ''/run/static'')"
  by (simp add: resolve_calc_dir_def dict_has_def dict_get_def dict_get_default_def dict_item_def
      py_reversed_def py_getitem_def)

text \<open>
  C7, amended. With no \<^verbatim>\<open>calc_dir\<close> and a \<^verbatim>\<open>calc_loc\<close> that is true and not a
  string, the directory is the path of the last record of \<^verbatim>\<open>calc_locs\<close>, whatever
  its name; on an empty history the run ends with \<^verbatim>\<open>IndexError\<close>.
\<close>

theorem most_recent_location:
  assumes "\<not> dict_has self ''calc_dir''"
    and "map_of self ''calc_loc'' = Some sel"
    and "py_truthy sel" and "\<not> is_string sel"
    and "map_of fw_spec ''calc_locs'' = Some (PList locs)"
  shows "(\<forall>record path. locs \<noteq> [] \<and> last locs = PDict record \<and> map_of record ''path'' = Some path
            \<longrightarrow> resolve_calc_dir self fw_spec cwd = Inr path)
       \<and> (locs = [] \<longrightarrow> resolve_calc_dir self fw_spec cwd = Inl IndexError)"
  using assms
  by (auto simp: resolve_calc_dir_def dict_get_def dict_get_default_def dict_item_def py_last_def
      py_getitem_def)

theorem most_recent_location_witness:
  "resolve_calc_dir [(''calc_loc'', PBool True)]
     [(''calc_locs'', PList [PDict [(''name'', PStr ''relax''), (''path'', PStr ''/run/relax'')],
                            PDict [(''name'', PStr ''static''), (''path'', PStr ''/run/static'')]])]
     ''/cwd'' = Inr (PStr ''/run/static'')"
  using most_recent_location [of "[(''calc_loc'', PBool True)]" "PBool True"
     "[(''calc_locs'', PList [PDict [(''name'', PStr ''relax''), (''path'', PStr ''/run/relax'')],
                            PDict [(''name'', PStr ''static''), (''path'', PStr ''/run/static'')]])]"
     "[PDict [(''name'', PStr ''relax''), (''path'', PStr ''/run/relax'')],
                            PDict [(''name'', PStr ''static''), (''path'', PStr ''/run/static'')]]"
     "''/cwd''"]
  by (simp add: dict_has_def)

text \<open>
  C7 as stated fails on the empty history: the code has no error of its own for it, and
  \<^verbatim>\<open>fw_spec["calc_locs"][-1]\<close> raises \<^verbatim>\<open>IndexError\<close>.
\<close>

theorem empty_history_counterexample:
  "resolve_calc_dir [(''calc_loc'', PBool True)] [(''calc_locs'', PList [])] ''/cwd''
     = Inl IndexError"
  by (simp add: resolve_calc_dir_def dict_has_def dict_get_def dict_get_default_def dict_item_def
      py_last_def)

end
